theory Spec2Isabelle
  imports Complex_Main "HOL-Library.Word"
begin

section \<open>The task scheduler of Embedded-Comm\<close>

text \<open>
  The module \<^verbatim>\<open>task_scheduler.py\<close> keeps its state in module globals and the class
  \<^verbatim>\<open>Task\<close> (\<^verbatim>\<open>task.py\<close>) reads and writes them. The globals become the fields of one
  record that every function takes and returns. Task objects are compared by identity
  (the class defines no \<^verbatim>\<open>__eq__\<close>) and carry a mutable message, so they live in an
  object store addressed by references; the registry and the queue hold references.
\<close>

subsection \<open>Data\<close>

type_synonym byte = "8 word"
type_synonym ref = nat

text \<open>The exceptions the modelled code can raise.\<close>

datatype py_error =
    OverflowError   \<comment> \<open>\<^verbatim>\<open>int.to_bytes\<close>: the id does not fit one byte\<close>
  | KeyError        \<comment> \<open>the id has already been registered\<close>
  | ValueError      \<comment> \<open>an rx task without a callback\<close>
  | TypeError       \<comment> \<open>calling \<^verbatim>\<open>None\<close>, or subtracting \<^verbatim>\<open>None\<close> from a time\<close>
  | AttributeError  \<comment> \<open>using the serial channel before \<^verbatim>\<open>init\<close>\<close>
  | IndexError      \<comment> \<open>first element of an empty sequence\<close>
  | DecodeError     \<comment> \<open>\<^verbatim>\<open>ParseFromString\<close> on a malformed payload\<close>
  | RuntimeError    \<comment> \<open>anything a callback raises\<close>

text \<open>
  A task object. The message type \<open>'m\<close> is the Protocol Buffer message class of the task,
  \<open>'c\<close> names the callables used as callbacks. The field \<^verbatim>\<open>id\<close> is the result of
  \<^verbatim>\<open>task_id.to_bytes(1, "big")\<close>, a byte string of length one, kept as that one byte.
\<close>

record ('m, 'c) task =
  msg :: 'm
  is_rx :: bool
  callback :: "'c option"
  id' :: byte

text \<open>
  The serial channel: the bytes waiting in its input buffer and the byte strings handed
  to \<^verbatim>\<open>write\<close>, oldest first. The channel is taken to work (no I/O failure), and no byte
  arrives while one call of \<^verbatim>\<open>run\<close> is executing.
\<close>

record serial =
  in_buf :: "byte list"
  written :: "byte list list"

definition in_waiting :: "serial \<Rightarrow> nat" where
  "in_waiting ch = length (in_buf ch)"

text \<open>
  The module globals, the object store (\<open>heap\<close>, \<open>next_ref\<close>), the number of readings
  taken from the clock so far, and a trace \<open>cb_invoked\<close> of the callbacks the scheduler's
  own code has invoked. The trace is not Python state; it exists to state how often a
  callback was run.
\<close>

record ('m, 'c) sched =
  SER_CH :: "serial option"
  task_holder :: "int \<rightharpoonup> ref"
  prev_task :: "ref option"
  start_time :: "real option"
  task_queue :: "ref list"
  heap :: "ref \<Rightarrow> ('m, 'c) task"
  next_ref :: ref
  clock_reads :: nat
  cb_invoked :: "ref list"

text \<open>
  A call either returns (\<open>Inr\<close>) or raises (\<open>Inl\<close>); what it did to the globals before
  raising stays done, so the exception comes with the state it leaves.
\<close>

type_synonym ('m, 'c) raised = "py_error \<times> ('m, 'c) sched"
type_synonym ('m, 'c) result = "('m, 'c) raised + ('m, 'c) sched"

text \<open>
  What the code uses and does not define: the three methods of the Protocol Buffer
  message, the meaning of each callback as a transformer of the whole state, and the
  clock (\<open>clock n\<close> is the float the \<open>n\<close>-th call of \<^verbatim>\<open>time()\<close> returns).
  \<open>ParseFromString m bs\<close> is \<open>Inr m'\<close> when the payload parses to \<open>m'\<close>, and \<open>Inl m'\<close>
  when it raises the decode error and leaves the message as \<open>m'\<close>.
\<close>

record ('m, 'c) env =
  ParseFromString :: "'m \<Rightarrow> byte list \<Rightarrow> 'm + 'm"
  SerializePartialToString :: "'m \<Rightarrow> byte list"
  Clear :: "'m \<Rightarrow> 'm"
  call :: "'c \<Rightarrow> ('m, 'c) sched \<Rightarrow> ('m, 'c) result"
  clock :: "nat \<Rightarrow> real"

text \<open>
  Times are Python floats, that is IEEE 754 binary64 numbers; a finite double is kept as
  the real number it denotes. \<open>double_of x\<close> is the double nearest to \<open>x\<close>, ties going
  to the even significand (\<open>pow2 (e - 52)\<close> is the distance between neighbouring doubles
  of exponent \<open>e\<close>; below exponent \<open>-1022\<close> the doubles are subnormal; overflow does not
  arise for times). The float subtraction returns the double nearest to the exact
  difference, and a float literal denotes the double nearest to it. Comparisons between
  doubles, and with the integer 1, are exact.
\<close>

definition pow2 :: "int \<Rightarrow> real" where
  "pow2 e = (if 0 \<le> e then 2 ^ nat e else 1 / 2 ^ nat (- e))"

definition round_even :: "real \<Rightarrow> int" where
  "round_even q =
     (let f = \<lfloor>q\<rfloor>; d = q - of_int f
      in if d < 1 / 2 then f else if 1 / 2 < d then f + 1 else if even f then f else f + 1)"

definition double_of :: "real \<Rightarrow> real" where
  "double_of x =
     (if x = 0 then 0
      else let e = max \<lfloor>log 2 \<bar>x\<bar>\<rfloor> (- 1022); ulp = pow2 (e - 52)
           in of_int (round_even (x / ulp)) * ulp)"

definition double_sub :: "real \<Rightarrow> real \<Rightarrow> real" where
  "double_sub a b = double_of (a - b)"

definition CH_OPEN_TIME :: real where
  "CH_OPEN_TIME = double_of (2 / 10)"

definition TASK_RESET_TIME :: real where
  "TASK_RESET_TIME = 1"

text \<open>The state of a freshly imported module: nothing registered, nothing queued.\<close>

definition module_init :: "(ref \<Rightarrow> ('m, 'c) task) \<Rightarrow> ('m, 'c) sched" where
  "module_init h =
     \<lparr>SER_CH = None, task_holder = Map.empty, prev_task = None, start_time = None,
      task_queue = [], heap = h, next_ref = 0, clock_reads = 0, cb_invoked = []\<rparr>"

subsection \<open>Small steps shared by the functions\<close>

definition time_py :: "('m, 'c) env \<Rightarrow> ('m, 'c) sched \<Rightarrow> real \<times> ('m, 'c) sched" where
  "time_py env s = (clock env (clock_reads s), s\<lparr>clock_reads := Suc (clock_reads s)\<rparr>)"

definition set_msg :: "ref \<Rightarrow> 'm \<Rightarrow> ('m, 'c) sched \<Rightarrow> ('m, 'c) sched" where
  "set_msg r m s = s\<lparr>heap := (heap s)(r := (heap s r)\<lparr>msg := m\<rparr>)\<rparr>"

text \<open>\<^verbatim>\<open>task.msg.Clear()\<close>\<close>

definition clear_msg :: "('m, 'c) env \<Rightarrow> ref \<Rightarrow> ('m, 'c) sched \<Rightarrow> ('m, 'c) sched" where
  "clear_msg env r s = set_msg r (Clear env (msg (heap s r))) s"

text \<open>
  \<^verbatim>\<open>task.callback()\<close> for a callback that is not \<^verbatim>\<open>None\<close>. The trace is written after
  the callable has run, from the trace before the call, so the callable cannot change it.
\<close>

definition invoke :: "('m, 'c) env \<Rightarrow> ref \<Rightarrow> 'c \<Rightarrow> ('m, 'c) sched \<Rightarrow> ('m, 'c) result" where
  "invoke env r c s =
     (case call env c s of
        Inl (e, s') \<Rightarrow> Inl (e, s'\<lparr>cb_invoked := cb_invoked s @ [r]\<rparr>)
      | Inr s' \<Rightarrow> Inr (s'\<lparr>cb_invoked := cb_invoked s @ [r]\<rparr>))"

text \<open>The frames written to the channel so far (none when there is no channel).\<close>

definition frames :: "('m, 'c) sched \<Rightarrow> byte list list" where
  "frames s = (case SER_CH s of None \<Rightarrow> [] | Some ch \<Rightarrow> written ch)"

subsection \<open>The interface of the scheduler\<close>

definition get_task :: "int \<Rightarrow> ('m, 'c) sched \<Rightarrow> ref option" where
  "get_task task_id s = task_holder s task_id"

definition is_task_in_queue :: "ref \<Rightarrow> ('m, 'c) sched \<Rightarrow> bool" where
  "is_task_in_queue task s \<longleftrightarrow> task \<in> set (task_queue s)"

definition is_task_registered :: "int \<Rightarrow> ('m, 'c) sched \<Rightarrow> bool" where
  "is_task_registered task_id s \<longleftrightarrow> task_id \<in> dom (task_holder s)"

definition register_task :: "int \<Rightarrow> ref \<Rightarrow> ('m, 'c) sched \<Rightarrow> ('m, 'c) sched" where
  "register_task task_id task s = s\<lparr>task_holder := (task_holder s)(task_id \<mapsto> task)\<rparr>"

definition schedule_task :: "ref \<Rightarrow> ('m, 'c) sched \<Rightarrow> ('m, 'c) sched" where
  "schedule_task task s =
     (if task \<notin> set (task_queue s) then s\<lparr>task_queue := task_queue s @ [task]\<rparr> else s)"

text \<open>
  \<^verbatim>\<open>_transmit_message\<close>: the frame is the id byte followed by the serialized message;
  it goes to the channel at once.
\<close>

definition transmit_message :: "('m, 'c) env \<Rightarrow> ref \<Rightarrow> ('m, 'c) sched \<Rightarrow> ('m, 'c) result" where
  "transmit_message env task s =
     (let bin_msg = id' (heap s task) # SerializePartialToString env (msg (heap s task))
      in case SER_CH s of
           None \<Rightarrow> Inl (AttributeError, s)
         | Some ch \<Rightarrow> Inr (s\<lparr>SER_CH := Some (ch\<lparr>written := written ch @ [bin_msg]\<rparr>)\<rparr>))"

definition pass_completion_message :: "('m, 'c) env \<Rightarrow> ref \<Rightarrow> ('m, 'c) sched \<Rightarrow> ('m, 'c) result" where
  "pass_completion_message env task s = transmit_message env task s"

subsection \<open>Constructing a task\<close>

text \<open>\<^verbatim>\<open>task_id.to_bytes(1, "big")\<close> raises unless the id is in 0..255.\<close>

definition to_bytes1 :: "int \<Rightarrow> byte option" where
  "to_bytes1 i = (if 0 \<le> i \<and> i < 256 then Some (word_of_int i) else None)"

text \<open>
  \<^verbatim>\<open>Task.__init__\<close>. The fields are set first, then the id is looked up in the registry
  whatever the direction of the task, then an rx task is checked for its callback and
  registered. When the constructor raises, the caller gets no reference to the object,
  so the object is not added to the store and the state is the one before the call.
\<close>

definition Task_init ::
  "int \<Rightarrow> bool \<Rightarrow> 'm \<Rightarrow> 'c option \<Rightarrow> ('m, 'c) sched \<Rightarrow> ('m, 'c) raised + (ref \<times> ('m, 'c) sched)" where
  "Task_init task_id is_rx_arg msg_obj cb s =
     (case to_bytes1 task_id of
        None \<Rightarrow> Inl (OverflowError, s)
      | Some b \<Rightarrow>
          let self = next_ref s;
              s1 = s\<lparr>heap := (heap s)(self := \<lparr>msg = msg_obj, is_rx = is_rx_arg, callback = cb, id' = b\<rparr>),
                     next_ref := Suc self\<rparr>
          in if is_task_registered task_id s then Inl (KeyError, s)
             else if is_rx_arg then
               (if cb = None then Inl (ValueError, s)
                else Inr (self, register_task task_id self s1))
             else Inr (self, s1))"

subsection \<open>Inbound handling\<close>

text \<open>
  The loop of \<^verbatim>\<open>_extract_message\<close>, over the bytes waiting in the input buffer: while a
  byte is waiting and the reading of the clock is less than the budget after \<open>start\<close>,
  one byte is read. It returns the bytes read, the bytes left in the buffer and the
  number of clock readings taken. The clock is read only when a byte is waiting
  (\<^verbatim>\<open>and\<close> evaluates its second operand only then).
\<close>

fun read_while :: "(nat \<Rightarrow> real) \<Rightarrow> real \<Rightarrow> byte list \<Rightarrow> nat \<Rightarrow> byte list \<Rightarrow> byte list \<times> byte list \<times> nat" where
  "read_while clk start [] n bin_msg = (bin_msg, [], n)"
| "read_while clk start (b # bs) n bin_msg =
     (if double_sub (clk n) start < CH_OPEN_TIME then read_while clk start bs (Suc n) (bin_msg @ [b])
      else (bin_msg, b # bs, Suc n))"

definition extract_message ::
  "('m, 'c) env \<Rightarrow> ('m, 'c) sched \<Rightarrow> ('m, 'c) raised + ((int \<times> byte list) \<times> ('m, 'c) sched)" where
  "extract_message env s =
     (let (start, s1) = time_py env s
      in case SER_CH s1 of
           None \<Rightarrow> Inl (AttributeError, s1)
         | Some ch \<Rightarrow>
             (case read_while (clock env) start (in_buf ch) (clock_reads s1) [] of
                (bin_msg, rest, n) \<Rightarrow>
                  let s2 = s1\<lparr>SER_CH := Some (ch\<lparr>in_buf := rest\<rparr>), clock_reads := n\<rparr>
                  in (case bin_msg of
                        [] \<Rightarrow> Inl (IndexError, s2)
                      | b # proto_msg \<Rightarrow> Inr ((uint b, proto_msg), s2))))"

text \<open>
  \<^verbatim>\<open>_route_data\<close>: a registered task takes the frame (parse, callback, clear); otherwise
  a frame whose id is that of the head of a non-empty queue removes the head; otherwise
  nothing happens.
\<close>

definition route_data :: "('m, 'c) env \<Rightarrow> int \<Rightarrow> byte list \<Rightarrow> ('m, 'c) sched \<Rightarrow> ('m, 'c) result" where
  "route_data env task_id msg_str s =
     (case task_holder s task_id of
        Some task \<Rightarrow>
          (case ParseFromString env (msg (heap s task)) msg_str of
             Inl m \<Rightarrow> Inl (DecodeError, set_msg task m s)
           | Inr m \<Rightarrow>
               let s1 = set_msg task m s
               in (case callback (heap s1 task) of
                     None \<Rightarrow> Inl (TypeError, s1)
                   | Some c \<Rightarrow>
                       (case invoke env task c s1 of
                          Inl e \<Rightarrow> Inl e
                        | Inr s2 \<Rightarrow> Inr (clear_msg env task s2))))
      | None \<Rightarrow>
          if length (task_queue s) \<noteq> 0 \<and> task_id = uint (id' (heap s (hd (task_queue s))))
          then Inr (s\<lparr>task_queue := tl (task_queue s)\<rparr>)
          else Inr s)"

definition handle_incoming_message :: "('m, 'c) env \<Rightarrow> ('m, 'c) sched \<Rightarrow> ('m, 'c) result" where
  "handle_incoming_message env s =
     (case extract_message env s of
        Inl e \<Rightarrow> Inl e
      | Inr ((task_id, proto_msg), s1) \<Rightarrow> route_data env task_id proto_msg s1)"

subsection \<open>Outbound handling\<close>

text \<open>
  \<^verbatim>\<open>_handle_current_task\<close>. \<^verbatim>\<open>_prev_task == task\<close> is identity of objects, and
  \<^verbatim>\<open>None == task\<close> is false.
\<close>

definition handle_current_task :: "('m, 'c) env \<Rightarrow> ('m, 'c) sched \<Rightarrow> ('m, 'c) result" where
  "handle_current_task env s =
     (case task_queue s of
        [] \<Rightarrow> Inl (IndexError, s)
      | task # _ \<Rightarrow>
          let is_prev_task = (prev_task s = Some task);
              (now, s1) = time_py env s
          in (case start_time s1 of
                None \<Rightarrow> Inl (TypeError, s1)
              | Some st \<Rightarrow>
                  let reset_task_timer = (double_sub now st > TASK_RESET_TIME)
                  in if (is_prev_task \<and> reset_task_timer) \<or> \<not> is_prev_task then
                       (case (case callback (heap s1 task) of
                                None \<Rightarrow> Inr s1
                              | Some c \<Rightarrow> invoke env task c s1) of
                          Inl e \<Rightarrow> Inl e
                        | Inr s2 \<Rightarrow>
                            (case transmit_message env task s2 of
                               Inl e \<Rightarrow> Inl e
                             | Inr s3 \<Rightarrow>
                                 let s4 = clear_msg env task s3;
                                     s5 = (if reset_task_timer
                                           then (let (t, s') = time_py env s4 in s'\<lparr>start_time := Some t\<rparr>)
                                           else s4)
                                 in Inr (s5\<lparr>prev_task := Some task\<rparr>)))
                     else Inr s1))"

subsection \<open>One tick\<close>

definition run :: "('m, 'c) env \<Rightarrow> ('m, 'c) sched \<Rightarrow> ('m, 'c) result" where
  "run env s =
     (case SER_CH s of
        None \<Rightarrow> Inl (AttributeError, s)
      | Some ch \<Rightarrow>
          (case (if in_waiting ch \<noteq> 0 then handle_incoming_message env s else Inr s) of
             Inl e \<Rightarrow> Inl e
           | Inr s1 \<Rightarrow> if task_queue s1 \<noteq> [] then handle_current_task env s1 else Inr s1))"


subsection \<open>Notions used to state the properties\<close>

text \<open>The state a call ends in, whether it returned or raised.\<close>

definition final :: "('m, 'c) result \<Rightarrow> ('m, 'c) sched" where
  "final res = (case res of Inl (e, s) \<Rightarrow> s | Inr s \<Rightarrow> s)"

text \<open>
  The condition under which outbound handling is said to act on the head \<open>r\<close>: the head
  is not the task of the previous outbound handling, or it is and the time elapsed since
  the last reset \<open>st\<close> of the timer, as the program computes it from the reading of the
  clock, is more than the retry interval.
\<close>

definition due :: "('m, 'c) env \<Rightarrow> ref \<Rightarrow> real \<Rightarrow> ('m, 'c) sched \<Rightarrow> bool" where
  "due env r st s \<longleftrightarrow>
     prev_task s \<noteq> Some r
     \<or> (prev_task s = Some r
          \<and> double_sub (clock env (clock_reads s)) st > TASK_RESET_TIME)"




subsection \<open>A small instance\<close>

text \<open>
  Messages are byte strings that serialize to themselves, clear to the empty string and
  parse from any payload of at least two bytes; a payload that is too short raises and
  leaves the bytes decoded so far. The clock and the callbacks are parameters.
\<close>

definition demo_env ::
  "(nat \<Rightarrow> real) \<Rightarrow> (nat \<Rightarrow> (byte list, nat) sched \<Rightarrow> (byte list, nat) result) \<Rightarrow> (byte list, nat) env" where
  "demo_env clk cbs =
     \<lparr>ParseFromString = (\<lambda>m bs. if length bs < 2 then Inl bs else Inr bs),
      SerializePartialToString = (\<lambda>m. m),
      Clear = (\<lambda>m. []),
      call = cbs,
      clock = clk\<rparr>"

text \<open>Callbacks: number 1 refreshes the message of object 2, any other does nothing.\<close>

definition demo_cbs :: "nat \<Rightarrow> (byte list, nat) sched \<Rightarrow> (byte list, nat) result" where
  "demo_cbs c s = (if c = 1 then Inr (set_msg 2 [42] s) else Inr s)"

text \<open>Callbacks that alert the peer of the completion of the object they are named after.\<close>

definition demo_alert :: "nat \<Rightarrow> (byte list, nat) sched \<Rightarrow> (byte list, nat) result" where
  "demo_alert c s = pass_completion_message (demo_env (\<lambda>n. 0) demo_cbs) c s"

text \<open>A clock that reads 0.5, then 0.75, then 1.5 from the third reading on.\<close>

definition demo_clock :: "nat \<Rightarrow> real" where
  "demo_clock n = (if n = 0 then 1 / 2 else if n = 1 then 3 / 4 else 3 / 2)"

text \<open>
  Objects: 0 is an rx task with id 7 and callback 0; 1 is a tx task with id 7 and no
  callback; every other object is a tx task with id 8 and callback 1.
\<close>

definition demo_heap :: "ref \<Rightarrow> (byte list, nat) task" where
  "demo_heap r =
     (if r = 0 then \<lparr>msg = [], is_rx = True, callback = Some 0, id' = 7\<rparr>
      else if r = 1 then \<lparr>msg = [], is_rx = False, callback = None, id' = 7\<rparr>
      else \<lparr>msg = [], is_rx = False, callback = Some 1, id' = 8\<rparr>)"

text \<open>
  A state after \<^verbatim>\<open>init\<close> at time 0, with the given bytes waiting, registry and queue.
\<close>

definition demo_sched :: "byte list \<Rightarrow> (int \<rightharpoonup> ref) \<Rightarrow> ref list \<Rightarrow> (byte list, nat) sched" where
  "demo_sched inp holder q =
     \<lparr>SER_CH = Some \<lparr>in_buf = inp, written = []\<rparr>, task_holder = holder, prev_task = None,
      start_time = Some 0, task_queue = q, heap = demo_heap, next_ref = 3,
      clock_reads = 0, cb_invoked = []\<rparr>"

text \<open>
  The store of a fresh module (its content does not matter: no object is allocated yet),
  and the module after an rx task with id 7 and callback 0 has been constructed.
\<close>

definition demo_blank :: "ref \<Rightarrow> (byte list, nat) task" where
  "demo_blank r = \<lparr>msg = [], is_rx = False, callback = None, id' = 0\<rparr>"

definition demo_registered :: "(byte list, nat) sched" where
  "demo_registered =
     \<lparr>SER_CH = None, task_holder = [7 \<mapsto> 0], prev_task = None, start_time = None,
      task_queue = [],
      heap = demo_blank(0 := \<lparr>msg = [], is_rx = True, callback = Some 0, id' = 7\<rparr>),
      next_ref = 1, clock_reads = 0, cb_invoked = []\<rparr>"

text \<open>
  The state after \<^verbatim>\<open>init\<close> with object 1 scheduled and transmitted once, and that state
  after the device has acknowledged the frame.
\<close>

definition demo_sent :: "(byte list, nat) sched" where
  "demo_sent =
     \<lparr>SER_CH = Some \<lparr>in_buf = [], written = [[7]]\<rparr>, task_holder = Map.empty,
      prev_task = Some 1, start_time = Some 0, task_queue = [1], heap = demo_heap,
      next_ref = 3, clock_reads = 1, cb_invoked = []\<rparr>"

definition demo_acked :: "(byte list, nat) sched" where
  "demo_acked =
     \<lparr>SER_CH = Some \<lparr>in_buf = [], written = [[7]]\<rparr>, task_holder = Map.empty,
      prev_task = Some 1, start_time = Some 0, task_queue = [], heap = demo_heap,
      next_ref = 3, clock_reads = 3, cb_invoked = []\<rparr>"

subsection \<open>The states the queue operations reach\<close>

text \<open>
  From a state with an empty queue, by the two operations of the module that change the
  queue: \<^verbatim>\<open>schedule_task\<close>, and the routing of a frame that no registered task takes
  (the only place of \<^verbatim>\<open>popleft\<close>).
\<close>

inductive queue_reach :: "('m, 'c) env \<Rightarrow> ('m, 'c) sched \<Rightarrow> bool" for env :: "('m, 'c) env" where
  empty: "task_queue s = [] \<Longrightarrow> queue_reach env s"
| scheduled: "queue_reach env s \<Longrightarrow> queue_reach env (schedule_task t s)"
| routed: "queue_reach env s \<Longrightarrow> task_holder s task_id = None \<Longrightarrow>
           route_data env task_id payload s = Inr s' \<Longrightarrow> queue_reach env s'"

section \<open>Properties\<close>

subsection \<open>Float arithmetic\<close>

lemma pow2_powr: "pow2 e = 2 powr of_int e"
proof (cases "0 \<le> e")
  case True
  then have "2 powr of_int e = (2::real) powr real (nat e)" by simp
  also have "\<dots> = 2 ^ nat e" by (simp add: powr_realpow)
  finally show ?thesis using True by (simp add: pow2_def)
next
  case False
  then have "2 powr of_int e = (2::real) powr (- real (nat (- e)))" by simp
  also have "\<dots> = 1 / 2 ^ nat (- e)" by (simp add: powr_minus powr_realpow divide_inverse)
  finally show ?thesis using False by (simp add: pow2_def)
qed

lemma floor_log2:
  assumes "pow2 e \<le> a" and "a < pow2 (e + 1)"
  shows "\<lfloor>log 2 a\<rfloor> = e"
proof -
  have pos: "0 < a" using assms(1) by (smt (verit) pow2_powr powr_gt_zero)
  have "of_int e \<le> log 2 a"
    using assms(1) pos by (simp add: le_log_iff pow2_powr)
  moreover have "log 2 a < of_int e + 1"
    using assms(2) pos by (simp add: log_less_iff pow2_powr)
  ultimately show ?thesis by (simp add: floor_unique)
qed

text \<open>The rounding of a number whose exponent is known.\<close>

lemma double_of_eval:
  assumes "x \<noteq> 0" and "pow2 e \<le> \<bar>x\<bar>" and "\<bar>x\<bar> < pow2 (e + 1)" and "- 1022 \<le> e"
  shows "double_of x = of_int (round_even (x / pow2 (e - 52))) * pow2 (e - 52)"
  using assms floor_log2[OF assms(2,3)] by (simp add: double_of_def Let_def max_def)

lemma CH_OPEN_TIME_value: "CH_OPEN_TIME = 3602879701896397 / 18014398509481984"
  unfolding CH_OPEN_TIME_def
  by (subst double_of_eval[where e = "-3"]) (simp_all add: pow2_def round_even_def Let_def)

lemma double_sub_zero: "double_sub 0 0 = 0"
  by (simp add: double_sub_def double_of_def)

lemma double_sub_half: "double_sub (1 / 2) 0 = 1 / 2"
  unfolding double_sub_def diff_zero
  by (subst double_of_eval[where e = "-1"]) (simp_all add: pow2_def round_even_def Let_def)

lemma double_sub_three_quarters: "double_sub (3 / 4) 0 = 3 / 4"
  unfolding double_sub_def diff_zero
  by (subst double_of_eval[where e = "-1"]) (simp_all add: pow2_def round_even_def Let_def)

lemma double_sub_three_halves: "double_sub (3 / 2) 0 = 3 / 2"
  unfolding double_sub_def diff_zero
  by (subst double_of_eval[where e = "0"]) (simp_all add: pow2_def round_even_def Let_def)

text \<open>
  The literals \<^verbatim>\<open>1.1\<close> and \<^verbatim>\<open>0.1\<close>, and their float difference: it is exactly 1, although
  the exact difference of the two doubles is a little more than 1.
\<close>

lemma double_of_11_10: "double_of (11 / 10) = 2476979795053773 / 2251799813685248"
  by (subst double_of_eval[where e = "0"]) (simp_all add: pow2_def round_even_def Let_def)

lemma double_of_1_10: "double_of (1 / 10) = 3602879701896397 / 36028797018963968"
  by (subst double_of_eval[where e = "-4"]) (simp_all add: pow2_def round_even_def Let_def)

lemma double_sub_rounds: "double_sub (double_of (11 / 10)) (double_of (1 / 10)) = 1"
  unfolding double_of_11_10 double_of_1_10 double_sub_def
  by (subst double_of_eval[where e = "0"]) (simp_all add: pow2_def round_even_def Let_def)

lemma not_due_at_rounded_interval:
  "prev_task s = Some r \<Longrightarrow> clock env (clock_reads s) = double_of (11 / 10) \<Longrightarrow>
     \<not> due env r (double_of (1 / 10)) s"
  by (simp add: due_def double_sub_rounds TASK_RESET_TIME_def)

lemmas double_evals = CH_OPEN_TIME_value double_sub_zero double_sub_half
  double_sub_three_quarters double_sub_three_halves

subsection \<open>Auxiliary facts\<close>

lemmas demo_defs = demo_env_def demo_cbs_def demo_heap_def demo_sched_def demo_clock_def
  demo_alert_def demo_blank_def demo_registered_def module_init_def demo_sent_def
  demo_acked_def

lemmas sched_defs = run_def handle_incoming_message_def extract_message_def route_data_def
  handle_current_task_def transmit_message_def pass_completion_message_def invoke_def
  clear_msg_def set_msg_def time_py_def in_waiting_def frames_def double_evals
  TASK_RESET_TIME_def Let_def

lemmas task_defs = Task_init_def to_bytes1_def is_task_registered_def register_task_def

lemma set_msg_simps [simp]:
  "SER_CH (set_msg r m s) = SER_CH s"
  "task_holder (set_msg r m s) = task_holder s"
  "prev_task (set_msg r m s) = prev_task s"
  "start_time (set_msg r m s) = start_time s"
  "task_queue (set_msg r m s) = task_queue s"
  "next_ref (set_msg r m s) = next_ref s"
  "clock_reads (set_msg r m s) = clock_reads s"
  "cb_invoked (set_msg r m s) = cb_invoked s"
  "msg (heap (set_msg r m s) r) = m"
  "callback (heap (set_msg r m s) r') = callback (heap s r')"
  "id' (heap (set_msg r m s) r') = id' (heap s r')"
  "is_rx (heap (set_msg r m s) r') = is_rx (heap s r')"
  "r' \<noteq> r \<Longrightarrow> heap (set_msg r m s) r' = heap s r'"
  by (simp_all add: set_msg_def)

lemma frames_set_msg [simp]: "frames (set_msg r m s) = frames s"
  by (simp add: frames_def)

lemma route_data_unregistered:
  "task_holder s task_id = None \<Longrightarrow> route_data env task_id payload s = Inr s' \<Longrightarrow>
     s' = s \<or> s' = s\<lparr>task_queue := tl (task_queue s)\<rparr>"
  by (auto simp add: route_data_def split: if_splits)

lemma queue_reach_distinct: "queue_reach env s \<Longrightarrow> distinct (task_queue s)"
proof (induction rule: queue_reach.induct)
  case (empty s)
  then show ?case by simp
next
  case (scheduled s t)
  then show ?case by (simp add: schedule_task_def)
next
  case (routed s task_id payload s')
  from route_data_unregistered[OF routed.hyps(2) routed.hyps(3)] routed.IH
  show ?case by (auto simp add: distinct_tl)
qed

subsection \<open>Acknowledgement of the queue head\<close>

text \<open>
  C4. A frame whose id no registered task has, and which is the id of the head of a
  non-empty queue, is an acknowledgement of the device: routing it returns, removes the
  head and changes nothing else, so the queue is its former tail and is one shorter.
\<close>

theorem C4_ack_removes_head:
  assumes "task_holder s task_id = None"
    and "task_queue s = t # q"
    and "task_id = uint (id' (heap s t))"
  shows "route_data env task_id payload s = Inr (s\<lparr>task_queue := q\<rparr>)
       \<and> task_queue (s\<lparr>task_queue := q\<rparr>) = tl (task_queue s)
       \<and> Suc (length (task_queue (s\<lparr>task_queue := q\<rparr>))) = length (task_queue s)"
  using assms by (simp add: route_data_def)

theorem C4_ack_removes_head_witness:
  "task_holder (demo_sched [] Map.empty [1, 2]) 7 = None
   \<and> task_queue (demo_sched [] Map.empty [1, 2]) = [1, 2]
   \<and> (7 :: int) = uint (id' (heap (demo_sched [] Map.empty [1, 2]) 1))
   \<and> route_data (demo_env (\<lambda>n. 0) demo_cbs) 7 [5] (demo_sched [] Map.empty [1, 2])
       = Inr (demo_sched [] Map.empty [2])"
proof -
  have h1: "task_holder (demo_sched [] Map.empty [1, 2]) 7 = None"
    by (simp add: demo_sched_def)
  have h2: "task_queue (demo_sched [] Map.empty [1, 2]) = [1, 2]"
    by (simp add: demo_sched_def)
  have h3: "(7 :: int) = uint (id' (heap (demo_sched [] Map.empty [1, 2]) 1))"
    by (simp add: demo_sched_def demo_heap_def)
  have upd: "(demo_sched [] Map.empty [1, 2])\<lparr>task_queue := [2]\<rparr> = demo_sched [] Map.empty [2]"
    by (simp add: demo_sched_def)
  have c: "route_data (demo_env (\<lambda>n. 0) demo_cbs) 7 [5] (demo_sched [] Map.empty [1, 2])
       = Inr (demo_sched [] Map.empty [2])"
    using C4_ack_removes_head [OF h1 h2 h3, where env = "demo_env (\<lambda>n. 0) demo_cbs"
        and payload = "[5]"] upd
    by simp
  show ?thesis by (intro conjI h1 h2 h3 c)
qed

subsection \<open>Scheduling\<close>

text \<open>
  C5. Scheduling a task that is in the queue changes nothing, and scheduling one that is
  not appends it at the end and changes nothing else. So scheduling is idempotent:
  scheduling a task a second time leaves every state as the first scheduling left it;
  from an empty queue the queue then holds the task once; and no state reached from an
  empty queue by scheduling and by acknowledgements has the same task object twice in
  its queue.
\<close>

theorem C5_schedule_idempotent:
  "(t \<in> set (task_queue s) \<longrightarrow> schedule_task t s = s)
   \<and> (t \<notin> set (task_queue s) \<longrightarrow> schedule_task t s = s\<lparr>task_queue := task_queue s @ [t]\<rparr>)
   \<and> schedule_task t (schedule_task t s) = schedule_task t s
   \<and> (task_queue s = [] \<longrightarrow> task_queue (schedule_task t (schedule_task t s)) = [t])
   \<and> (queue_reach env s \<longrightarrow> distinct (task_queue s))"
  by (simp add: schedule_task_def queue_reach_distinct)

theorem C5_schedule_idempotent_witness:
  "1 \<in> set (task_queue (demo_sched [] Map.empty [1, 2]))
   \<and> schedule_task 1 (demo_sched [] Map.empty [1, 2]) = demo_sched [] Map.empty [1, 2]
   \<and> 3 \<notin> set (task_queue (demo_sched [] Map.empty [1, 2]))
   \<and> schedule_task 3 (demo_sched [] Map.empty [1, 2]) = demo_sched [] Map.empty [1, 2, 3]
   \<and> task_queue (demo_sched [] Map.empty []) = []
   \<and> queue_reach (demo_env (\<lambda>n. 0) demo_cbs) (schedule_task 1 (demo_sched [] Map.empty []))
   \<and> task_queue (schedule_task 1 (schedule_task 1 (demo_sched [] Map.empty []))) = [1]
   \<and> distinct (task_queue (schedule_task 1 (demo_sched [] Map.empty [])))"
proof -
  have e: "task_queue (demo_sched [] Map.empty []) = []"
    by (simp add: demo_sched_def)
  have r: "queue_reach (demo_env (\<lambda>n. 0) demo_cbs) (schedule_task 1 (demo_sched [] Map.empty []))"
    by (rule queue_reach.scheduled, rule queue_reach.empty, rule e)
  have present: "1 \<in> set (task_queue (demo_sched [] Map.empty [1, 2]))"
    by (simp add: demo_sched_def)
  have absent: "3 \<notin> set (task_queue (demo_sched [] Map.empty [1, 2]))"
    by (simp add: demo_sched_def)
  have app: "(demo_sched [] Map.empty [1, 2])\<lparr>task_queue := task_queue (demo_sched [] Map.empty [1, 2]) @ [3]\<rparr>
      = demo_sched [] Map.empty [1, 2, 3]"
    by (simp add: demo_sched_def)
  note w0 = C5_schedule_idempotent [where s = "demo_sched [] Map.empty []" and t = 1
      and env = "demo_env (\<lambda>n. 0) demo_cbs"]
  note w1 = C5_schedule_idempotent [where s = "schedule_task 1 (demo_sched [] Map.empty [])"
      and t = 1 and env = "demo_env (\<lambda>n. 0) demo_cbs"]
  note w2 = C5_schedule_idempotent [where s = "demo_sched [] Map.empty [1, 2]" and t = 1
      and env = "demo_env (\<lambda>n. 0) demo_cbs"]
  note w3 = C5_schedule_idempotent [where s = "demo_sched [] Map.empty [1, 2]" and t = 3
      and env = "demo_env (\<lambda>n. 0) demo_cbs"]
  have noop: "schedule_task 1 (demo_sched [] Map.empty [1, 2]) = demo_sched [] Map.empty [1, 2]"
    using w2 present by blast
  have "schedule_task 3 (demo_sched [] Map.empty [1, 2])
      = (demo_sched [] Map.empty [1, 2])\<lparr>task_queue := task_queue (demo_sched [] Map.empty [1, 2]) @ [3]\<rparr>"
    using w3 absent by blast
  then have appended: "schedule_task 3 (demo_sched [] Map.empty [1, 2]) = demo_sched [] Map.empty [1, 2, 3]"
    unfolding app .
  have once: "task_queue (schedule_task 1 (schedule_task 1 (demo_sched [] Map.empty []))) = [1]"
    using w0 e by blast
  have dist: "distinct (task_queue (schedule_task 1 (demo_sched [] Map.empty [])))"
    using w1 r by blast
  show ?thesis by (intro conjI present noop absent appended e r once dist)
qed

subsection \<open>Construction and registration\<close>

text \<open>
  C6. Constructing an rx task whose id (a byte value) the registry already holds raises
  the duplicate error and leaves the whole state, and so the registry, as it was. In
  particular, after an rx task has been constructed, a second construction with the
  same id raises it, and the id is still mapped to the first task.
\<close>

theorem C6_duplicate_rx_rejected:
  "(task_holder s i = Some r \<and> 0 \<le> i \<and> i < 256 \<longrightarrow>
      Task_init i True m cb s = Inl (KeyError, s))
   \<and> (Task_init i True m1 cb1 s = Inr (r1, s1) \<longrightarrow>
      Task_init i True m2 cb2 s1 = Inl (KeyError, s1) \<and> task_holder s1 i = Some r1)"
  by (auto simp add: task_defs Let_def split: if_splits option.splits)

theorem C6_duplicate_rx_rejected_witness:
  "task_holder demo_registered 7 = Some 0
   \<and> Task_init 7 True [] (Some 0) (module_init demo_blank) = Inr (0, demo_registered)
   \<and> Task_init 7 True [9] (Some 1) demo_registered = Inl (KeyError, demo_registered)"
proof -
  have first: "Task_init 7 True [] (Some 0) (module_init demo_blank) = Inr (0, demo_registered)"
    by (simp add: task_defs demo_registered_def module_init_def)
  have held: "task_holder demo_registered 7 = Some 0"
    by (simp add: demo_registered_def)
  have second: "Task_init 7 True [9] (Some 1) demo_registered = Inl (KeyError, demo_registered)"
    using first
      C6_duplicate_rx_rejected [where s = "module_init demo_blank" and i = 7 and ?m1.0 = "[]"
        and ?cb1.0 = "Some 0" and ?r1.0 = 0 and ?s1.0 = demo_registered and ?m2.0 = "[9]"
        and ?cb2.0 = "Some 1"]
    by blast
  have again: "Task_init 7 True [9] (Some 1) demo_registered = Inl (KeyError, demo_registered)"
    using held
      C6_duplicate_rx_rejected [where s = demo_registered and i = 7 and r = 0 and m = "[9]"
        and cb = "Some 1"]
    by simp
  show ?thesis by (intro conjI held first second)
qed

text \<open>
  C7, as stated: constructing an rx task without a callback raises the configuration
  error and leaves no entry for its id. It fails for an id that is registered: the
  registry is looked up first, the duplicate error is raised, and the id has its entry.
\<close>

theorem C7_registered_id_counterexample:
  "Task_init 7 True [] (Some 0) (module_init demo_blank) = Inr (0, demo_registered)
   \<and> Task_init 7 True [] None demo_registered = Inl (KeyError, demo_registered)
   \<and> task_holder demo_registered 7 = Some 0"
  by (simp add: task_defs demo_registered_def module_init_def)

text \<open>
  C7, amended. Constructing an rx task without a callback always raises and never
  changes the state. For an id in 0..255 that is not registered the error is the
  configuration error, and the registry still has no entry for the id. For a registered
  id in 0..255 it is the duplicate error.
\<close>

theorem C7_rx_without_callback:
  "(\<exists>e. Task_init i True m None s = Inl (e, s))
   \<and> (0 \<le> i \<and> i < 256 \<and> task_holder s i = None \<longrightarrow>
        Task_init i True m None s = Inl (ValueError, s) \<and> task_holder s i = None)
   \<and> (0 \<le> i \<and> i < 256 \<and> task_holder s i \<noteq> None \<longrightarrow>
        Task_init i True m None s = Inl (KeyError, s))"
  by (auto simp add: task_defs Let_def)

theorem C7_rx_without_callback_witness:
  "task_holder (module_init demo_blank) 7 = None
   \<and> Task_init 7 True [] None (module_init demo_blank) = Inl (ValueError, module_init demo_blank)
   \<and> task_holder demo_registered 7 \<noteq> None
   \<and> Task_init 7 True [] None demo_registered = Inl (KeyError, demo_registered)"
proof -
  have free: "task_holder (module_init demo_blank) 7 = None"
    by (simp add: module_init_def)
  have held: "task_holder demo_registered 7 \<noteq> None"
    by (simp add: demo_registered_def)
  have a: "Task_init 7 True [] None (module_init demo_blank) = Inl (ValueError, module_init demo_blank)"
    using free C7_rx_without_callback [where s = "module_init demo_blank" and i = 7 and m = "[]"]
    by simp
  have b: "Task_init 7 True [] None demo_registered = Inl (KeyError, demo_registered)"
    using held C7_rx_without_callback [where s = demo_registered and i = 7 and m = "[]"]
    by simp
  show ?thesis by (intro conjI free a held b)
qed

text \<open>
  C10. The lookup in the registry does not depend on the direction of the new task:
  constructing a tx task with a registered id raises the duplicate error, and two tx
  tasks with the same unregistered id are both constructed, as two objects with that
  id, and the registry stays as it was.
\<close>

theorem C10_duplicate_check_any_direction:
  assumes "0 \<le> i" and "i < 256"
  shows "(task_holder s i = Some r \<longrightarrow> Task_init i False m cb s = Inl (KeyError, s))
       \<and> (task_holder s i = None \<longrightarrow>
            (\<exists>r1 s1 r2 s2. Task_init i False m1 cb1 s = Inr (r1, s1)
               \<and> Task_init i False m2 cb2 s1 = Inr (r2, s2)
               \<and> r1 \<noteq> r2
               \<and> id' (heap s2 r1) = word_of_int i \<and> id' (heap s2 r2) = word_of_int i
               \<and> task_holder s2 = task_holder s))"
  using assms by (auto simp add: task_defs Let_def)

theorem C10_duplicate_check_any_direction_witness:
  "task_holder demo_registered 7 = Some 0
   \<and> Task_init 7 False [] None demo_registered = Inl (KeyError, demo_registered)
   \<and> task_holder (module_init demo_blank) 7 = None
   \<and> (\<exists>r1 s1 r2 s2. Task_init 7 False [1] None (module_init demo_blank) = Inr (r1, s1)
         \<and> Task_init 7 False [2] None s1 = Inr (r2, s2) \<and> r1 \<noteq> r2)"
proof -
  have lo: "(0 :: int) \<le> 7" and hi: "(7 :: int) < 256"
    by simp_all
  have a: "task_holder demo_registered 7 = Some 0"
    by (simp add: demo_registered_def)
  have b: "task_holder (module_init demo_blank) 7 = None"
    by (simp add: module_init_def)
  have c: "Task_init 7 False [] None demo_registered = Inl (KeyError, demo_registered)"
    using a C10_duplicate_check_any_direction [OF lo hi, where s = demo_registered and r = 0
        and m = "[]" and cb = None]
    by blast
  have d: "\<exists>r1 s1 r2 s2. Task_init 7 False [1] None (module_init demo_blank) = Inr (r1, s1)
         \<and> Task_init 7 False [2] None s1 = Inr (r2, s2) \<and> r1 \<noteq> r2"
    using b C10_duplicate_check_any_direction [OF lo hi, where s = "module_init demo_blank"
        and ?m1.0 = "[1]" and ?cb1.0 = None and ?m2.0 = "[2]" and ?cb2.0 = None]
    by blast
  show ?thesis by (intro conjI a c b d)
qed

subsection \<open>Frames nobody takes\<close>

text \<open>
  C8. A frame whose id no registered task has, and which is not the id of the head of
  the queue (or the queue is empty), is dropped: routing it returns, without an
  exception, the state it was given, so no callback has run, the queue is the same and
  nothing has been written.
\<close>

theorem C8_unroutable_discarded:
  assumes "task_holder s task_id = None"
    and "task_queue s = [] \<or> task_id \<noteq> uint (id' (heap s (hd (task_queue s))))"
  shows "route_data env task_id payload s = Inr s"
  using assms by (auto simp add: route_data_def)

theorem C8_unroutable_discarded_witness:
  "task_holder (demo_sched [] [7 \<mapsto> 0] [2]) 9 = None
   \<and> (9 :: int) \<noteq> uint (id' (heap (demo_sched [] [7 \<mapsto> 0] [2]) (hd (task_queue (demo_sched [] [7 \<mapsto> 0] [2])))))
   \<and> route_data (demo_env (\<lambda>n. 0) demo_cbs) 9 [1, 2] (demo_sched [] [7 \<mapsto> 0] [2])
       = Inr (demo_sched [] [7 \<mapsto> 0] [2])
   \<and> task_holder (demo_sched [] Map.empty []) 9 = None
   \<and> task_queue (demo_sched [] Map.empty []) = []
   \<and> route_data (demo_env (\<lambda>n. 0) demo_cbs) 9 [1, 2] (demo_sched [] Map.empty [])
       = Inr (demo_sched [] Map.empty [])"
proof -
  have h1: "task_holder (demo_sched [] [7 \<mapsto> 0] [2]) 9 = None"
    by (simp add: demo_sched_def)
  have h2: "(9 :: int) \<noteq> uint (id' (heap (demo_sched [] [7 \<mapsto> 0] [2]) (hd (task_queue (demo_sched [] [7 \<mapsto> 0] [2])))))"
    by (simp add: demo_sched_def demo_heap_def)
  have c1: "route_data (demo_env (\<lambda>n. 0) demo_cbs) 9 [1, 2] (demo_sched [] [7 \<mapsto> 0] [2])
       = Inr (demo_sched [] [7 \<mapsto> 0] [2])"
    by (rule C8_unroutable_discarded [OF h1 disjI2 [OF h2]])
  have h3: "task_holder (demo_sched [] Map.empty []) 9 = None"
    by (simp add: demo_sched_def)
  have h4: "task_queue (demo_sched [] Map.empty []) = []"
    by (simp add: demo_sched_def)
  have c2: "route_data (demo_env (\<lambda>n. 0) demo_cbs) 9 [1, 2] (demo_sched [] Map.empty [])
       = Inr (demo_sched [] Map.empty [])"
    by (rule C8_unroutable_discarded [OF h3 disjI1 [OF h4]])
  show ?thesis by (intro conjI h1 h2 c1 h3 h4 c2)
qed

subsection \<open>Outbound handling\<close>










subsection \<open>Frames for a registered task\<close>

text \<open>
  C1, as stated: one tick on a frame for a registered rx task writes a completion frame
  with the id of the task. With a callback that does nothing, the tick parses, invokes
  the callback once and clears the message, and nothing at all is written.
\<close>

theorem C1_no_completion_frame_counterexample:
  "run (demo_env (\<lambda>n. 0) demo_cbs) (demo_sched [7, 1, 2] [7 \<mapsto> 0] [])
     = Inr ((demo_sched [] [7 \<mapsto> 0] [])\<lparr>clock_reads := 4, cb_invoked := [0]\<rparr>)
   \<and> frames ((demo_sched [] [7 \<mapsto> 0] [])\<lparr>clock_reads := 4, cb_invoked := [0]\<rparr>) = []"
  by (simp add: demo_defs sched_defs fun_eq_iff)

text \<open>
  C1, amended. For a frame whose id a registered task \<open>r\<close> has, whose payload parses and
  whose callback returns, routing returns after exactly this: the payload is parsed
  into the message of \<open>r\<close>, the callback of \<open>r\<close> is invoked once, and the message is
  cleared. The scheduler writes nothing itself: the frames on the channel and the queue
  are as the callback left them. A completion frame appears only when the callback
  alerts completion; then it is the id of \<open>r\<close> followed by the serialized parsed message
  (the message is cleared after the callback), written to the channel at once, and the
  queue is not touched.
\<close>

theorem C1_rx_dispatch:
  assumes "task_holder s task_id = Some r"
    and "ParseFromString env (msg (heap s r)) payload = Inr m"
    and "callback (heap s r) = Some c"
    and "call env c (set_msg r m s) = Inr s2"
  shows "\<exists>s'. route_data env task_id payload s = Inr s'
           \<and> s' = clear_msg env r (s2\<lparr>cb_invoked := cb_invoked s @ [r]\<rparr>)
           \<and> cb_invoked s' = cb_invoked s @ [r]
           \<and> msg (heap s' r) = Clear env (msg (heap s2 r))
           \<and> frames s' = frames s2
           \<and> task_queue s' = task_queue s2
           \<and> ((\<forall>s1. call env c s1 = pass_completion_message env r s1) \<longrightarrow> SER_CH s \<noteq> None \<longrightarrow>
                 frames s' = frames s @ [id' (heap s r) # SerializePartialToString env m]
                 \<and> task_queue s' = task_queue s)"
proof -
  let ?s' = "clear_msg env r (s2\<lparr>cb_invoked := cb_invoked s @ [r]\<rparr>)"
  have run: "route_data env task_id payload s = Inr ?s'"
    using assms by (simp add: route_data_def invoke_def)
  have a: "cb_invoked ?s' = cb_invoked s @ [r]"
    by (simp add: clear_msg_def)
  have b: "msg (heap ?s' r) = Clear env (msg (heap s2 r))"
    by (simp add: clear_msg_def set_msg_def)
  have c: "frames ?s' = frames s2" "task_queue ?s' = task_queue s2"
    by (simp_all add: clear_msg_def frames_def)
  have d: "frames ?s' = frames s @ [id' (heap s r) # SerializePartialToString env m]
                 \<and> task_queue ?s' = task_queue s"
    if al: "\<forall>s1. call env c s1 = pass_completion_message env r s1" and ch: "SER_CH s \<noteq> None"
  proof -
    from ch obtain ch0 where ch0: "SER_CH s = Some ch0" by auto
    have "pass_completion_message env r (set_msg r m s) = Inr s2"
      using al assms(4) by simp
    then have "s2 = (set_msg r m s)\<lparr>SER_CH := Some (ch0\<lparr>written := written ch0 @ [id' (heap s r) # SerializePartialToString env m]\<rparr>)\<rparr>"
      using ch0 by (simp add: pass_completion_message_def transmit_message_def)
    then show ?thesis using c ch0 by (simp add: frames_def)
  qed
  show ?thesis using run a b c d by blast
qed

theorem C1_rx_dispatch_witness:
  "task_holder (demo_sched [] [7 \<mapsto> 0] []) 7 = Some 0
   \<and> ParseFromString (demo_env (\<lambda>n. 0) demo_alert) (msg (heap (demo_sched [] [7 \<mapsto> 0] []) 0)) [1, 2] = Inr [1, 2]
   \<and> callback (heap (demo_sched [] [7 \<mapsto> 0] []) 0) = Some 0
   \<and> (\<forall>s1. call (demo_env (\<lambda>n. 0) demo_alert) 0 s1 = pass_completion_message (demo_env (\<lambda>n. 0) demo_alert) 0 s1)
   \<and> (\<exists>s'. route_data (demo_env (\<lambda>n. 0) demo_alert) 7 [1, 2] (demo_sched [] [7 \<mapsto> 0] []) = Inr s'
         \<and> cb_invoked s' = [0] \<and> frames s' = [[7, 1, 2]] \<and> task_queue s' = [])"
proof -
  let ?E = "demo_env (\<lambda>n. 0) demo_alert"
  let ?S = "demo_sched [] [7 \<mapsto> 0] []"
  let ?U = "(set_msg 0 [1, 2] ?S)\<lparr>SER_CH := Some \<lparr>in_buf = [], written = [[7, 1, 2]]\<rparr>\<rparr>"
  have h1: "task_holder ?S 7 = Some 0"
    by (simp add: demo_sched_def)
  have h2: "ParseFromString ?E (msg (heap ?S 0)) [1, 2] = Inr [1, 2]"
    by (simp add: demo_env_def)
  have h3: "callback (heap ?S 0) = Some 0"
    by (simp add: demo_sched_def demo_heap_def)
  have h4: "call ?E 0 (set_msg 0 [1, 2] ?S) = Inr ?U"
    by (simp add: demo_env_def demo_alert_def pass_completion_message_def transmit_message_def
        demo_sched_def demo_heap_def set_msg_def)
  have al: "\<forall>s1. call ?E 0 s1 = pass_completion_message ?E 0 s1"
    by (simp add: demo_env_def demo_alert_def pass_completion_message_def transmit_message_def)
  have ch: "SER_CH ?S \<noteq> None"
    by (simp add: demo_sched_def)
  have fr: "frames ?S = []" and inv: "cb_invoked ?S = []" and qu: "task_queue ?S = []"
    and ser: "id' (heap ?S 0) # SerializePartialToString ?E [1, 2] = [7, 1, 2]"
    by (simp_all add: demo_sched_def demo_heap_def demo_env_def frames_def)
  from C1_rx_dispatch [OF h1 h2 h3 h4] al ch obtain s' where
    "route_data ?E 7 [1, 2] ?S = Inr s'" and "cb_invoked s' = cb_invoked ?S @ [0]"
    and "frames s' = frames ?S @ [id' (heap ?S 0) # SerializePartialToString ?E [1, 2]]"
    and "task_queue s' = task_queue ?S"
    by blast
  then have c: "\<exists>s'. route_data ?E 7 [1, 2] ?S = Inr s'
         \<and> cb_invoked s' = [0] \<and> frames s' = [[7, 1, 2]] \<and> task_queue s' = []"
    using fr inv qu ser by auto
  show ?thesis by (intro conjI h1 h2 h3 al c)
qed

text \<open>
  C2, as stated: when the payload does not parse, the tick goes on to its end and the
  message of the task is cleared. Here the payload is too short: the tick ends with the
  decode error, the task waiting in the queue is not handled (nothing is written), and
  the message is what the failed parse left, not the cleared message.
\<close>

theorem C2_tick_aborts_counterexample:
  "run (demo_env (\<lambda>n. 0) demo_cbs) (demo_sched [7, 1] [7 \<mapsto> 0] [1])
     = Inl (DecodeError, set_msg 0 [1] ((demo_sched [] [7 \<mapsto> 0] [1])\<lparr>clock_reads := 3\<rparr>))
   \<and> msg (heap (set_msg 0 [1] ((demo_sched [] [7 \<mapsto> 0] [1])\<lparr>clock_reads := 3\<rparr>)) 0)
       \<noteq> Clear (demo_env (\<lambda>n. 0) demo_cbs) [1]
   \<and> frames (set_msg 0 [1] ((demo_sched [] [7 \<mapsto> 0] [1])\<lparr>clock_reads := 3\<rparr>)) = []
   \<and> cb_invoked (set_msg 0 [1] ((demo_sched [] [7 \<mapsto> 0] [1])\<lparr>clock_reads := 3\<rparr>)) = []"
  by (simp add: demo_defs sched_defs fun_eq_iff)

text \<open>
  C2, amended. When the payload of a frame for a registered task \<open>r\<close> does not parse, the
  decode error is raised out of the routing and, when the frame was read by a tick, out
  of the tick: the failure is not dropped, but the tick stops there. The callback is not
  invoked, the scheduler does not clear the message (it stays as the failed parse left
  it), the queue and the channel output are untouched and outbound handling is skipped.
\<close>

theorem C2_decode_error_raised:
  assumes "task_holder s task_id = Some r"
    and "ParseFromString env (msg (heap s r)) payload = Inl m"
  shows "route_data env task_id payload s = Inl (DecodeError, set_msg r m s)
       \<and> msg (heap (set_msg r m s) r) = m
       \<and> cb_invoked (set_msg r m s) = cb_invoked s
       \<and> task_queue (set_msg r m s) = task_queue s
       \<and> frames (set_msg r m s) = frames s
       \<and> (\<forall>s0 ch. SER_CH s0 = Some ch \<and> in_waiting ch \<noteq> 0
             \<and> extract_message env s0 = Inr ((task_id, payload), s)
            \<longrightarrow> run env s0 = Inl (DecodeError, set_msg r m s))"
  using assms by (simp add: route_data_def run_def handle_incoming_message_def)

theorem C2_decode_error_raised_witness:
  "task_holder ((demo_sched [] [7 \<mapsto> 0] [1])\<lparr>clock_reads := 3\<rparr>) 7 = Some 0
   \<and> ParseFromString (demo_env (\<lambda>n. 0) demo_cbs)
        (msg (heap ((demo_sched [] [7 \<mapsto> 0] [1])\<lparr>clock_reads := 3\<rparr>) 0)) [1] = Inl [1]
   \<and> SER_CH (demo_sched [7, 1] [7 \<mapsto> 0] [1]) = Some \<lparr>in_buf = [7, 1], written = []\<rparr>
   \<and> in_waiting \<lparr>in_buf = [7, 1], written = []\<rparr> \<noteq> 0
   \<and> extract_message (demo_env (\<lambda>n. 0) demo_cbs) (demo_sched [7, 1] [7 \<mapsto> 0] [1])
        = Inr ((7, [1]), (demo_sched [] [7 \<mapsto> 0] [1])\<lparr>clock_reads := 3\<rparr>)
   \<and> run (demo_env (\<lambda>n. 0) demo_cbs) (demo_sched [7, 1] [7 \<mapsto> 0] [1])
        = Inl (DecodeError, set_msg 0 [1] ((demo_sched [] [7 \<mapsto> 0] [1])\<lparr>clock_reads := 3\<rparr>))"
proof -
  let ?E = "demo_env (\<lambda>n. 0) demo_cbs"
  let ?T = "demo_sched [7, 1] [7 \<mapsto> 0] [1]"
  let ?S = "(demo_sched [] [7 \<mapsto> 0] [1])\<lparr>clock_reads := 3\<rparr>"
  have h1: "task_holder ?S 7 = Some 0"
    by (simp add: demo_sched_def)
  have h2: "ParseFromString ?E (msg (heap ?S 0)) [1] = Inl [1]"
    by (simp add: demo_env_def)
  have h3: "SER_CH ?T = Some \<lparr>in_buf = [7, 1], written = []\<rparr>"
    by (simp add: demo_sched_def)
  have h4: "in_waiting \<lparr>in_buf = [7, 1], written = []\<rparr> \<noteq> 0"
    by (simp add: in_waiting_def)
  have h5: "extract_message ?E ?T = Inr ((7, [1]), ?S)"
    by (simp add: extract_message_def time_py_def demo_env_def demo_sched_def double_evals
        Let_def)
  have c: "run ?E ?T = Inl (DecodeError, set_msg 0 [1] ?S)"
    using C2_decode_error_raised [OF h1 h2] h3 h4 h5 by blast
  show ?thesis by (intro conjI h1 h2 h3 h4 h5 c)
qed

text \<open>
  C9. When the id of a frame is both that of a registered task \<open>r\<close> and that of the head
  of the queue, the registered task takes the frame and the acknowledgement branch is
  not reached: the only callback the scheduler invokes is that of \<open>r\<close> (at most once; once
  when the payload parses), the queue is not popped (callbacks that leave the queue
  alone find it unchanged afterwards, head included, whether routing returns or raises),
  and when the payload parses and the callback returns the result is that of the
  dispatch to \<open>r\<close>.
\<close>

theorem C9_registration_shadows_ack:
  assumes "task_holder s task_id = Some r" and "task_queue s = t # q"
    and "task_id = uint (id' (heap s t))"
  shows "((\<forall>c s1. task_queue (final (call env c s1)) = task_queue s1) \<longrightarrow>
            task_queue (final (route_data env task_id payload s)) = t # q)
       \<and> (cb_invoked (final (route_data env task_id payload s)) = cb_invoked s
          \<or> cb_invoked (final (route_data env task_id payload s)) = cb_invoked s @ [r])
       \<and> (\<forall>m c s2. ParseFromString env (msg (heap s r)) payload = Inr m
             \<and> callback (heap s r) = Some c \<and> call env c (set_msg r m s) = Inr s2 \<longrightarrow>
            route_data env task_id payload s
              = Inr (clear_msg env r (s2\<lparr>cb_invoked := cb_invoked s @ [r]\<rparr>))
            \<and> task_queue (clear_msg env r (s2\<lparr>cb_invoked := cb_invoked s @ [r]\<rparr>)) = task_queue s2)"
proof (intro conjI impI allI)
  assume q: "\<forall>c s1. task_queue (final (call env c s1)) = task_queue s1"
  show "task_queue (final (route_data env task_id payload s)) = t # q"
  proof (cases "ParseFromString env (msg (heap s r)) payload")
    case (Inl m)
    then show ?thesis using assms by (simp add: route_data_def final_def)
  next
    case (Inr m)
    show ?thesis
    proof (cases "callback (heap s r)")
      case None
      then show ?thesis using assms Inr by (simp add: route_data_def final_def)
    next
      case (Some c)
      have "task_queue (final (call env c (set_msg r m s))) = t # q"
        using q assms by simp
      then show ?thesis using assms Inr Some
        by (auto simp add: route_data_def final_def invoke_def clear_msg_def split: sum.splits prod.splits)
    qed
  qed
next
  show "cb_invoked (final (route_data env task_id payload s)) = cb_invoked s
          \<or> cb_invoked (final (route_data env task_id payload s)) = cb_invoked s @ [r]"
    using assms
    by (auto simp add: route_data_def final_def invoke_def clear_msg_def Let_def
        split: sum.splits prod.splits option.splits)
next
  fix m c s2
  assume "ParseFromString env (msg (heap s r)) payload = Inr m
             \<and> callback (heap s r) = Some c \<and> call env c (set_msg r m s) = Inr s2"
  then show "route_data env task_id payload s
              = Inr (clear_msg env r (s2\<lparr>cb_invoked := cb_invoked s @ [r]\<rparr>))"
    using assms by (simp add: route_data_def invoke_def)
next
  fix m c s2
  show "task_queue (clear_msg env r (s2\<lparr>cb_invoked := cb_invoked s @ [r]\<rparr>)) = task_queue s2"
    by (simp add: clear_msg_def)
qed

theorem C9_registration_shadows_ack_witness:
  "task_holder (demo_sched [] [7 \<mapsto> 0] [1]) 7 = Some 0
   \<and> task_queue (demo_sched [] [7 \<mapsto> 0] [1]) = [1]
   \<and> (7 :: int) = uint (id' (heap (demo_sched [] [7 \<mapsto> 0] [1]) 1))
   \<and> (\<forall>c s1. task_queue (final (call (demo_env (\<lambda>n. 0) demo_cbs) c s1)) = task_queue s1)
   \<and> task_queue (final (route_data (demo_env (\<lambda>n. 0) demo_cbs) 7 [1, 2] (demo_sched [] [7 \<mapsto> 0] [1]))) = [1]
   \<and> route_data (demo_env (\<lambda>n. 0) demo_cbs) 7 [1, 2] (demo_sched [] [7 \<mapsto> 0] [1])
       = Inr (clear_msg (demo_env (\<lambda>n. 0) demo_cbs) 0
               ((set_msg 0 [1, 2] (demo_sched [] [7 \<mapsto> 0] [1]))\<lparr>cb_invoked := [0]\<rparr>))"
proof -
  let ?E = "demo_env (\<lambda>n. 0) demo_cbs"
  let ?S = "demo_sched [] [7 \<mapsto> 0] [1]"
  have h1: "task_holder ?S 7 = Some 0"
    by (simp add: demo_sched_def)
  have h2: "task_queue ?S = [1]"
    by (simp add: demo_sched_def)
  have h3: "(7 :: int) = uint (id' (heap ?S 1))"
    by (simp add: demo_sched_def demo_heap_def)
  have h4: "\<forall>c s1. task_queue (final (call ?E c s1)) = task_queue s1"
    by (simp add: demo_env_def demo_cbs_def final_def)
  have p: "ParseFromString ?E (msg (heap ?S 0)) [1, 2] = Inr [1, 2]"
    by (simp add: demo_env_def)
  have cb: "callback (heap ?S 0) = Some 0"
    by (simp add: demo_sched_def demo_heap_def)
  have ret: "call ?E 0 (set_msg 0 [1, 2] ?S) = Inr (set_msg 0 [1, 2] ?S)"
    by (simp add: demo_env_def demo_cbs_def)
  have inv: "cb_invoked ?S = []"
    by (simp add: demo_sched_def)
  note w = C9_registration_shadows_ack [OF h1 h2 h3, where env = ?E and payload = "[1, 2]"]
  have c1: "task_queue (final (route_data ?E 7 [1, 2] ?S)) = [1]"
    using w h4 by blast
  have "route_data ?E 7 [1, 2] ?S
       = Inr (clear_msg ?E 0 ((set_msg 0 [1, 2] ?S)\<lparr>cb_invoked := cb_invoked ?S @ [0]\<rparr>))"
    using w p cb ret by blast
  then have c2: "route_data ?E 7 [1, 2] ?S
       = Inr (clear_msg ?E 0 ((set_msg 0 [1, 2] ?S)\<lparr>cb_invoked := [0]\<rparr>))"
    unfolding inv by simp
  show ?thesis by (intro conjI h1 h2 h3 h4 c1 c2)
qed

end
